theory Spec2Isabelle
  imports Main "HOL-Library.Sublist"
begin

section \<open>ecw: a wrapper that translates simple flags into CMake invocations\<close>

text \<open>
  The repository holds two scripts. \<^verbatim>\<open>ecw.py\<close> is the current command set
  (\<open>call\<close>, \<open>config\<close>, \<open>build\<close>); \<^verbatim>\<open>main.py\<close> is an older command set with the
  same three names, modelled here as \<open>main_call\<close>, \<open>main_config\<close>, \<open>main_build\<close>.
  Everything the scripts do to the outside (echoing, deleting a directory tree, running a
  child process) is made explicit as a change to a \<open>world\<close> value.
\<close>

subsection \<open>Paths\<close>

text \<open>
  Both directory options are declared with \<^verbatim>\<open>resolve_path=True\<close>, so the functions
  receive absolute, normalised paths. Such a path is the list of its components below the
  root; the root itself is the empty list. The model is that of POSIX paths.
\<close>

type_synonym path = "string list"

text \<open>\<^verbatim>\<open>str(p)\<close> for an absolute POSIX path.\<close>

fun path_str :: "path \<Rightarrow> string" where
  "path_str [] = ''/''"
| "path_str [c] = ''/'' @ c"
| "path_str (c # d # ds) = ''/'' @ c @ path_str (d # ds)"

text \<open>
  \<^verbatim>\<open>p.parents\<close>: the proper ancestors of \<open>p\<close>, nearest first, ending with the
  root; empty for the root.
\<close>

definition parents :: "path \<Rightarrow> path list" where
  "parents p = map (\<lambda>k. take k p) (rev [0..<length p])"

subsection \<open>The filesystem, the child process and the world\<close>

datatype node = Dir | File

type_synonym fsys = "path \<rightharpoonup> node"

text \<open>\<^verbatim>\<open>os.path.isdir\<close>.\<close>

definition isdir :: "fsys \<Rightarrow> path \<Rightarrow> bool" where
  "isdir f p = (f p = Some Dir)"

text \<open>Where a stream of the child process goes.\<close>

datatype sink = Inherit | DevNull

datatype event =
    Echo string
  | EchoErr string
  | Rmtree path
  | Spawn "string list" sink sink

text \<open>
  The external tool: given its argument vector and the filesystem it starts in, its exit
  status and the filesystem it leaves behind.
\<close>

type_synonym child = "string list \<Rightarrow> fsys \<Rightarrow> int \<times> fsys"

record world =
  fs :: fsys
  trace :: "event list"

text \<open>How a command function ends: it returns, or \<^verbatim>\<open>typer.Exit(code)\<close> is raised.\<close>

datatype outcome = Returned | Exit int

text \<open>
  The exit code of the process: \<^verbatim>\<open>typer\<close> exits with 0 after a command function
  that returns, and with the given code on \<^verbatim>\<open>typer.Exit\<close>.
\<close>

fun exit_code :: "outcome \<Rightarrow> int" where
  "exit_code Returned = 0"
| "exit_code (Exit n) = n"

text \<open>\<^verbatim>\<open>typer.echo(msg, err=...)\<close>.\<close>

definition typer_echo :: "string \<Rightarrow> bool \<Rightarrow> world \<Rightarrow> world" where
  "typer_echo msg err w = w\<lparr>trace := trace w @ [if err then EchoErr msg else Echo msg]\<rparr>"

text \<open>\<^verbatim>\<open>shutil.rmtree(p)\<close>: the directory and everything below it disappear.\<close>

definition rmtree_fs :: "path \<Rightarrow> fsys \<Rightarrow> fsys" where
  "rmtree_fs p f = (\<lambda>q. if prefix p q then None else f q)"

definition rmtree :: "path \<Rightarrow> world \<Rightarrow> world" where
  "rmtree p w = w\<lparr>fs := rmtree_fs p (fs w), trace := trace w @ [Rmtree p]\<rparr>"

text \<open>
  \<^verbatim>\<open>subprocess.call(command, stdout=...)\<close>: blocks until the child ends and returns
  its status. No \<^verbatim>\<open>stderr\<close> argument is ever passed, so that stream is inherited.
\<close>

definition subprocess_call :: "child \<Rightarrow> string list \<Rightarrow> sink \<Rightarrow> world \<Rightarrow> int \<times> world" where
  "subprocess_call ch command out w =
     (case ch command (fs w) of
        (rc, f') \<Rightarrow> (rc, w\<lparr>fs := f', trace := trace w @ [Spawn command out Inherit]\<rparr>))"

text \<open>\<^verbatim>\<open>' '.join(command)\<close>.\<close>

fun join_sp :: "string list \<Rightarrow> string" where
  "join_sp [] = []"
| "join_sp [x] = x"
| "join_sp (x # y # ys) = x @ '' '' @ join_sp (y # ys)"

subsection \<open>ecw.py\<close>

datatype BuildMode = debug | release | release_with_debug | min_size_release

text \<open>The string each member of the enumeration is (\<open>BuildMode\<close> is a \<open>str\<close> as well).\<close>

fun mode_value :: "BuildMode \<Rightarrow> string" where
  "mode_value debug = ''d''"
| "mode_value release = ''r''"
| "mode_value release_with_debug = ''w''"
| "mode_value min_size_release = ''s''"

fun to_param :: "BuildMode \<Rightarrow> string" where
  "to_param m =
     (if m = release then ''Release''
      else if m = release_with_debug then ''RelWithDebInfo''
      else if m = min_size_release then ''MinSizeRel''
      else ''Debug'')"

definition call :: "child \<Rightarrow> string list \<Rightarrow> bool \<Rightarrow> world \<Rightarrow> outcome \<times> world" where
  "call ch command quiet w =
     (let w1 = typer_echo (''> '' @ join_sp command) False w;
          (result, w2) = (if quiet then subprocess_call ch command DevNull w1
                          else subprocess_call ch command Inherit w1)
      in if result \<noteq> 0 then (Exit result, w2) else (Returned, w2))"

text \<open>
  The truth value of \<^verbatim>\<open>mode\<close> in \<^verbatim>\<open>if mode:\<close>: \<^verbatim>\<open>None\<close> is false, and a
  member of a \<open>str\<close>-based enumeration is true when its string is not empty.
\<close>

definition mode_truthy :: "BuildMode option \<Rightarrow> bool" where
  "mode_truthy mode = (case mode of None \<Rightarrow> False | Some m \<Rightarrow> mode_value m \<noteq> [])"

text \<open>
  The truth value of \<^verbatim>\<open>cmake_params\<close> in \<^verbatim>\<open>if cmake_params:\<close>: \<^verbatim>\<open>None\<close> and the
  empty list are false.
\<close>

definition params_truthy :: "string list option \<Rightarrow> bool" where
  "params_truthy ps = (case ps of None \<Rightarrow> False | Some xs \<Rightarrow> xs \<noteq> [])"

text \<open>Lines 157 to 163 of \<^verbatim>\<open>ecw.py\<close>: the command that \<open>config\<close> assembles.\<close>

definition config_command ::
  "string list option \<Rightarrow> path \<Rightarrow> path \<Rightarrow> BuildMode option \<Rightarrow> bool \<Rightarrow> string list" where
  "config_command cmake_params source_dir build_dir mode export_cc =
     (let command = [''cmake'', ''-S'', path_str source_dir, ''-B'', path_str build_dir];
          command = (if mode_truthy mode
                     then command @ [''-DCMAKE_BUILD_TYPE='' @ to_param (the mode)]
                     else command);
          command = (if export_cc then command @ [''-DCMAKE_EXPORT_COMPILE_COMMANDS=1'']
                     else command);
          command = (if params_truthy cmake_params then command @ the cmake_params
                     else command)
      in command)"

definition config ::
  "child \<Rightarrow> string list option \<Rightarrow> path \<Rightarrow> path \<Rightarrow> BuildMode option \<Rightarrow> bool \<Rightarrow> bool \<Rightarrow> bool
     \<Rightarrow> world \<Rightarrow> outcome \<times> world" where
  "config ch cmake_params source_dir build_dir mode export_cc quiet reset w =
     (if reset then
        (if build_dir \<in> set (parents source_dir) then
           (Returned,
            typer_echo ''Error: Build root contains source root; cannot remove.'' True w)
         else if isdir (fs w) build_dir then
           call ch (config_command cmake_params source_dir build_dir mode export_cc) quiet
             (rmtree build_dir w)
         else
           call ch (config_command cmake_params source_dir build_dir mode export_cc) quiet w)
      else
        call ch (config_command cmake_params source_dir build_dir mode export_cc) quiet w)"

text \<open>Lines 187 to 189 of \<^verbatim>\<open>ecw.py\<close>: the command that \<open>build\<close> assembles.\<close>

definition build_command :: "string \<Rightarrow> path \<Rightarrow> string list" where
  "build_command target build_dir =
     (let command = [''cmake'', ''--build'', path_str build_dir]
      in if target \<noteq> ''all'' then command @ [''-t'', target] else command)"

definition build :: "child \<Rightarrow> string \<Rightarrow> path \<Rightarrow> world \<Rightarrow> outcome \<times> world" where
  "build ch target build_dir w = call ch (build_command target build_dir) False w"

text \<open>
  The command line of \<open>config\<close>: the option \<^verbatim>\<open>--mode\<close> is declared with the default
  \<^verbatim>\<open>BuildMode.debug\<close>, which the function receives when the option is not given.
\<close>

definition mode_option :: "BuildMode option \<Rightarrow> BuildMode option" where
  "mode_option given = (case given of None \<Rightarrow> Some debug | Some m \<Rightarrow> Some m)"

definition config_cli ::
  "child \<Rightarrow> string list option \<Rightarrow> path \<Rightarrow> path \<Rightarrow> BuildMode option \<Rightarrow> bool \<Rightarrow> bool \<Rightarrow> bool
     \<Rightarrow> world \<Rightarrow> outcome \<times> world" where
  "config_cli ch cmake_params source_dir build_dir given_mode export_cc quiet reset w =
     config ch cmake_params source_dir build_dir (mode_option given_mode) export_cc quiet reset w"

subsection \<open>main.py\<close>

definition main_call :: "child \<Rightarrow> string list \<Rightarrow> world \<Rightarrow> outcome \<times> world" where
  "main_call ch command w =
     (let w1 = typer_echo (''> '' @ join_sp command) False w;
          (result, w2) = subprocess_call ch command Inherit w1
      in (Returned, w2))"

definition main_config_command :: "string list option \<Rightarrow> path \<Rightarrow> path \<Rightarrow> string list" where
  "main_config_command cmake_params source_dir build_dir =
     (let command = [''cmake'', ''-S'', path_str source_dir, ''-B'', path_str build_dir]
      in if params_truthy cmake_params then command @ the cmake_params else command)"

definition main_config ::
  "child \<Rightarrow> string list option \<Rightarrow> path \<Rightarrow> path \<Rightarrow> world \<Rightarrow> outcome \<times> world" where
  "main_config ch cmake_params source_dir build_dir w =
     main_call ch (main_config_command cmake_params source_dir build_dir) w"

definition main_build_command :: "string \<Rightarrow> path \<Rightarrow> string list" where
  "main_build_command target build_dir =
     (let command = [''cmake'', ''--build'', path_str build_dir]
      in if target \<noteq> ''all'' then command @ [''-t'', target] else command)"

definition main_build :: "child \<Rightarrow> string \<Rightarrow> path \<Rightarrow> world \<Rightarrow> outcome \<times> world" where
  "main_build ch target build_dir w = main_call ch (main_build_command target build_dir) w"

subsection \<open>Notions used to state the properties\<close>

text \<open>A build-type token is a token that sets \<^verbatim>\<open>CMAKE_BUILD_TYPE\<close>.\<close>

definition is_build_type_token :: "string \<Rightarrow> bool" where
  "is_build_type_token t = prefix ''-DCMAKE_BUILD_TYPE='' t"

text \<open>The passthrough parameters as a list: none when the argument is \<^verbatim>\<open>None\<close>.\<close>

definition passthrough :: "string list option \<Rightarrow> string list" where
  "passthrough ps = (case ps of None \<Rightarrow> [] | Some xs \<Rightarrow> xs)"

text \<open>The child processes of a trace, in order, and the directory trees it deleted.\<close>

fun spawns :: "event list \<Rightarrow> (string list \<times> sink \<times> sink) list" where
  "spawns [] = []"
| "spawns (Spawn argv out err # es) = (argv, out, err) # spawns es"
| "spawns (e # es) = spawns es"

fun deletions :: "event list \<Rightarrow> path list" where
  "deletions [] = []"
| "deletions (Rmtree p # es) = p # deletions es"
| "deletions (e # es) = deletions es"


text \<open>The message of the unsafe-reset error.\<close>

definition unsafe_reset_message :: string where
  "unsafe_reset_message = ''Error: Build root contains source root; cannot remove.''"

subsection \<open>A concrete project, used to run the operations\<close>

definition repo_fs :: fsys where
  "repo_fs = [[''repo''] \<mapsto> Dir,
              [''repo'', ''src''] \<mapsto> Dir,
              [''repo'', ''src'', ''CMakeLists.txt''] \<mapsto> File,
              [''repo'', ''build''] \<mapsto> Dir,
              [''repo'', ''build'', ''CMakeCache.txt''] \<mapsto> File]"

text \<open>A child process that changes nothing and ends with status \<open>n\<close>.\<close>

definition cmake_exit :: "int \<Rightarrow> child" where
  "cmake_exit n = (\<lambda>argv f. (n, f))"

section \<open>Auxiliary facts\<close>

subsection \<open>Paths\<close>

text \<open>Membership in \<open>parents\<close> is being a proper ancestor.\<close>

lemma parents_iff: "b \<in> set (parents s) \<longleftrightarrow> strict_prefix b s"
proof
  assume "b \<in> set (parents s)"
  then obtain k where k: "k < length s" "b = take k s"
    by (auto simp: parents_def)
  then have "prefix b s" by (simp add: take_is_prefix)
  moreover from k have "length b < length s" by simp
  ultimately show "strict_prefix b s" by (auto simp: strict_prefix_def)
next
  assume sp: "strict_prefix b s"
  then obtain zs where zs: "s = b @ zs" "zs \<noteq> []"
    by (auto simp: strict_prefix_def prefix_def)
  then have "length b < length s" "b = take (length b) s" by simp_all
  then show "b \<in> set (parents s)"
    unfolding parents_def by (metis (no_types, lifting) atLeast0LessThan imageI lessThan_iff list.set_map set_rev set_upt)
qed

text \<open>The string of a path starts with a slash, so it is never an option token.\<close>

lemma path_str_slash: "\<exists>t. path_str p = CHR ''/'' # t"
  by (induction p rule: path_str.induct) simp_all

lemma path_str_not_prefix: "\<not> prefix ''-DCMAKE_BUILD_TYPE='' (path_str p)"
  using path_str_slash [of p] by auto


subsection \<open>Traces\<close>

lemma spawns_append: "spawns (xs @ ys) = spawns xs @ spawns ys"
  by (induction xs rule: spawns.induct) simp_all

lemma deletions_append: "deletions (xs @ ys) = deletions xs @ deletions ys"
  by (induction xs rule: deletions.induct) simp_all

subsection \<open>The process runners\<close>

lemma call_eq:
  "call ch command quiet w =
     (if fst (ch command (fs w)) \<noteq> 0 then Exit (fst (ch command (fs w))) else Returned,
      \<lparr>fs = snd (ch command (fs w)),
       trace = trace w @ [Echo (''> '' @ join_sp command),
                          Spawn command (if quiet then DevNull else Inherit) Inherit]\<rparr>)"
  by (cases "ch command (fs w)") (simp add: call_def subprocess_call_def typer_echo_def)

lemma main_call_eq:
  "main_call ch command w =
     (Returned,
      \<lparr>fs = snd (ch command (fs w)),
       trace = trace w @ [Echo (''> '' @ join_sp command), Spawn command Inherit Inherit]\<rparr>)"
  by (cases "ch command (fs w)") (simp add: main_call_def subprocess_call_def typer_echo_def)

lemma call_after_rmtree:
  "snd (call ch command q (rmtree b w)) =
     \<lparr>fs = snd (ch command (rmtree_fs b (fs w))),
      trace = trace w @ [Rmtree b, Echo (''> '' @ join_sp command),
                         Spawn command (if q then DevNull else Inherit) Inherit]\<rparr>"
  by (simp add: call_eq rmtree_def)

text \<open>
  The runner of \<^verbatim>\<open>ecw.py\<close> ends with the child's status when that is not zero and
  returns otherwise; the one of \<^verbatim>\<open>main.py\<close> always returns.
\<close>

lemma call_propagates_status:
  "fst (call ch command quiet w) =
     (if fst (ch command (fs w)) \<noteq> 0 then Exit (fst (ch command (fs w))) else Returned)"
  by (simp add: call_eq)

lemma main_call_returns: "fst (main_call ch command w) = Returned"
  by (simp add: main_call_eq)

subsection \<open>The assembled commands\<close>

lemma mode_truthy_iff: "mode_truthy m \<longleftrightarrow> m \<noteq> None"
proof (cases m)
  case None
  then show ?thesis by (simp add: mode_truthy_def)
next
  case (Some x)
  then show ?thesis by (cases x) (simp_all add: mode_truthy_def)
qed

lemma config_command_eq:
  "config_command ps s b m e =
     [''cmake'', ''-S'', path_str s, ''-B'', path_str b]
     @ (case m of None \<Rightarrow> [] | Some x \<Rightarrow> [''-DCMAKE_BUILD_TYPE='' @ to_param x])
     @ (if e then [''-DCMAKE_EXPORT_COMPILE_COMMANDS=1''] else [])
     @ passthrough ps"
  by (cases m; cases ps)
     (simp_all add: config_command_def mode_truthy_iff params_truthy_def passthrough_def Let_def
        del: to_param.simps)

lemma main_config_command_eq:
  "main_config_command ps s b =
     [''cmake'', ''-S'', path_str s, ''-B'', path_str b] @ passthrough ps"
  by (cases ps) (simp_all add: main_config_command_def params_truthy_def passthrough_def Let_def)



lemma filter_build_type_config_command:
  "filter is_build_type_token (config_command ps s b m e) =
     (case m of None \<Rightarrow> [] | Some x \<Rightarrow> [''-DCMAKE_BUILD_TYPE='' @ to_param x])
     @ filter is_build_type_token (passthrough ps)"
  by (cases m)
     (simp_all add: config_command_eq is_build_type_token_def path_str_not_prefix
        del: to_param.simps)


subsection \<open>The configure and build operations\<close>

lemma config_eq:
  "config ch ps s b m e q r w =
     (if r \<and> strict_prefix b s then
        (Returned, w\<lparr>trace := trace w @ [EchoErr unsafe_reset_message]\<rparr>)
      else call ch (config_command ps s b m e) q
             (if r \<and> isdir (fs w) b then rmtree b w else w))"
  by (simp add: config_def parents_iff typer_echo_def unsafe_reset_message_def)

lemma config_reset_safe_eq:
  "\<not> strict_prefix b s \<Longrightarrow> isdir (fs w) b \<Longrightarrow>
     config ch ps s b m e q True w = call ch (config_command ps s b m e) q (rmtree b w)"
  by (simp add: config_eq)


text \<open>
  Both operations of \<^verbatim>\<open>ecw.py\<close> end as their runner does; those of \<^verbatim>\<open>main.py\<close>
  return whatever the child's status.
\<close>

lemma build_propagates_status:
  "fst (build ch t b w) =
     (if fst (ch (build_command t b) (fs w)) \<noteq> 0
      then Exit (fst (ch (build_command t b) (fs w))) else Returned)"
  by (simp add: build_def call_eq)

lemma config_propagates_status:
  "\<not> reset \<Longrightarrow>
   fst (config ch ps s b m e q reset w) =
     (if fst (ch (config_command ps s b m e) (fs w)) \<noteq> 0
      then Exit (fst (ch (config_command ps s b m e) (fs w))) else Returned)"
  by (simp add: config_eq call_eq)

lemma main_operations_return:
  "fst (main_build ch t b w) = Returned" "fst (main_config ch ps s b w) = Returned"
  by (simp_all add: main_build_def main_config_def main_call_eq)

section \<open>The properties\<close>

text \<open>
  C1. Whenever the build path is a proper ancestor of the source path, \<open>config\<close> with the
  reset flag set returns after writing the unsafe-reset error to the error stream: the
  filesystem is unchanged, no directory tree is deleted and no child process is spawned.
\<close>

theorem config_unsafe_reset_aborts:
  "strict_prefix build_dir source_dir \<Longrightarrow>
     config ch ps source_dir build_dir mode ecc quiet True w
       = (Returned, w\<lparr>trace := trace w @ [EchoErr unsafe_reset_message]\<rparr>)
     \<and> fs (snd (config ch ps source_dir build_dir mode ecc quiet True w)) = fs w
     \<and> deletions (trace (snd (config ch ps source_dir build_dir mode ecc quiet True w)))
         = deletions (trace w)
     \<and> spawns (trace (snd (config ch ps source_dir build_dir mode ecc quiet True w)))
         = spawns (trace w)"
  by (simp add: config_eq spawns_append deletions_append)

theorem config_unsafe_reset_aborts_witness:
  "strict_prefix [''repo''] [''repo'', ''src'']
   \<and> config (cmake_exit 0) None [''repo'', ''src''] [''repo''] None False False True
        \<lparr>fs = repo_fs, trace = []\<rparr>
       = (Returned, \<lparr>fs = repo_fs, trace = [EchoErr unsafe_reset_message]\<rparr>)"
proof -
  have h: "strict_prefix [''repo''] [''repo'', ''src'']" by simp
  show ?thesis
    using h config_unsafe_reset_aborts [OF h, of "cmake_exit 0" None None False False
        "\<lparr>fs = repo_fs, trace = []\<rparr>"]
    by simp
qed

text \<open>
  C2, as stated, at a concrete invocation: \<^verbatim>\<open>config -S /repo -B /repo/build\<close> without
  \<^verbatim>\<open>--mode\<close>. The option's declared default \<open>debug\<close> is what the function receives,
  and the command that is run carries the build-type token for it, where the claim asks
  for no build-type token at all.
\<close>

theorem no_mode_given_counterexample:
  "spawns (trace (snd (config_cli (cmake_exit 0) None [''repo''] [''repo'', ''build''] None
      False False False \<lparr>fs = repo_fs, trace = []\<rparr>)))
     = [([''cmake'', ''-S'', ''/repo'', ''-B'', ''/repo/build'', ''-DCMAKE_BUILD_TYPE=Debug''],
         Inherit, Inherit)]
   \<and> filter is_build_type_token
        [''cmake'', ''-S'', ''/repo'', ''-B'', ''/repo/build'', ''-DCMAKE_BUILD_TYPE=Debug'']
     = [''-DCMAKE_BUILD_TYPE=Debug'']"
  by (simp add: config_cli_def mode_option_def config_eq call_eq config_command_eq
      passthrough_def is_build_type_token_def)

text \<open>
  C2, amended. When the \<open>mode\<close> parameter of \<open>config\<close> is \<^verbatim>\<open>None\<close>, the command has no
  build-type token of its own: the only such tokens are those among the passthrough
  parameters. An invocation from the command line that gives no \<^verbatim>\<open>--mode\<close> runs
  \<open>config\<close> with the default mode \<open>debug\<close>, and its command carries the token
  \<^verbatim>\<open>-DCMAKE_BUILD_TYPE=Debug\<close> right after the two paths.
\<close>

theorem config_without_mode:
  "filter is_build_type_token (config_command ps s b None e)
     = filter is_build_type_token (passthrough ps)
   \<and> config_cli ch ps s b None e q r w = config ch ps s b (Some debug) e q r w
   \<and> config_command ps s b (mode_option None) e
     = [''cmake'', ''-S'', path_str s, ''-B'', path_str b, ''-DCMAKE_BUILD_TYPE=Debug'']
       @ (if e then [''-DCMAKE_EXPORT_COMPILE_COMMANDS=1''] else [])
       @ passthrough ps"
proof -
  have a: "filter is_build_type_token (config_command ps s b None e)
          = filter is_build_type_token (passthrough ps)"
    by (simp add: filter_build_type_config_command)
  have b: "config_cli ch ps s b None e q r w = config ch ps s b (Some debug) e q r w"
    by (simp add: config_cli_def mode_option_def)
  have c: "config_command ps s b (mode_option None) e
          = [''cmake'', ''-S'', path_str s, ''-B'', path_str b, ''-DCMAKE_BUILD_TYPE=Debug'']
            @ (if e then [''-DCMAKE_EXPORT_COMPILE_COMMANDS=1''] else [])
            @ passthrough ps"
    by (simp add: config_command_eq mode_option_def)
  from a b c show ?thesis by blast
qed

text \<open>
  C3, at a concrete run of the older command set: \<^verbatim>\<open>build mytarget -B /repo/build\<close>
  with a child process that ends with status 2. The runner of \<^verbatim>\<open>main.py\<close> drops the
  status and the invocation ends with exit code 0; the same run through \<^verbatim>\<open>ecw.py\<close>
  ends with exit code 2.
\<close>

theorem main_call_ignores_status:
  "fst (cmake_exit 2 (main_build_command ''mytarget'' [''repo'', ''build'']) repo_fs) = 2
   \<and> exit_code (fst (main_build (cmake_exit 2) ''mytarget'' [''repo'', ''build'']
        \<lparr>fs = repo_fs, trace = []\<rparr>)) = 0
   \<and> exit_code (fst (build (cmake_exit 2) ''mytarget'' [''repo'', ''build'']
        \<lparr>fs = repo_fs, trace = []\<rparr>)) = 2"
  by (simp add: main_build_def main_call_eq build_def call_eq cmake_exit_def)


text \<open>
  C5. When the build path is not a proper ancestor of the source path and is an existing
  directory, \<open>config\<close> with the reset flag set runs the command in the world that
  \<open>rmtree\<close> leaves: nothing at or below the build path exists there, every other entry is
  as before, the deletion precedes the echo and the spawn in the trace, and the child
  process starts in the filesystem without the build tree.
\<close>

theorem config_reset_removes_build_dir:
  "\<not> strict_prefix b s \<Longrightarrow> isdir (fs w) b \<Longrightarrow>
     config ch ps s b m e q True w = call ch (config_command ps s b m e) q (rmtree b w)
     \<and> (\<forall>p. prefix b p \<longrightarrow> fs (rmtree b w) p = None)
     \<and> (\<forall>p. \<not> prefix b p \<longrightarrow> fs (rmtree b w) p = fs w p)
     \<and> trace (snd (config ch ps s b m e q True w))
         = trace w @ [Rmtree b, Echo (''> '' @ join_sp (config_command ps s b m e)),
                      Spawn (config_command ps s b m e) (if q then DevNull else Inherit) Inherit]
     \<and> fs (snd (config ch ps s b m e q True w))
         = snd (ch (config_command ps s b m e) (rmtree_fs b (fs w)))"
proof -
  assume h: "\<not> strict_prefix b s" "isdir (fs w) b"
  have c: "config ch ps s b m e q True w = call ch (config_command ps s b m e) q (rmtree b w)"
    using h by (rule config_reset_safe_eq)
  have gone: "\<forall>p. prefix b p \<longrightarrow> fs (rmtree b w) p = None"
    by (simp add: rmtree_def rmtree_fs_def)
  have kept: "\<forall>p. \<not> prefix b p \<longrightarrow> fs (rmtree b w) p = fs w p"
    by (simp add: rmtree_def rmtree_fs_def)
  have after: "trace (snd (config ch ps s b m e q True w))
         = trace w @ [Rmtree b, Echo (''> '' @ join_sp (config_command ps s b m e)),
                      Spawn (config_command ps s b m e) (if q then DevNull else Inherit) Inherit]"
    "fs (snd (config ch ps s b m e q True w))
         = snd (ch (config_command ps s b m e) (rmtree_fs b (fs w)))"
    by (simp_all only: c call_after_rmtree world.simps)
  from c gone kept after show ?thesis by blast
qed

theorem config_reset_removes_build_dir_witness:
  "\<not> strict_prefix [''repo'', ''build''] [''repo'', ''src'']
   \<and> isdir (fs \<lparr>fs = repo_fs, trace = []\<rparr>) [''repo'', ''build'']
   \<and> prefix [''repo'', ''build''] [''repo'', ''build'', ''CMakeCache.txt'']
   \<and> repo_fs [''repo'', ''build'', ''CMakeCache.txt''] = Some File
   \<and> fs (rmtree [''repo'', ''build''] \<lparr>fs = repo_fs, trace = []\<rparr>)
        [''repo'', ''build'', ''CMakeCache.txt''] = None
   \<and> \<not> prefix [''repo'', ''build''] [''repo'', ''src'', ''CMakeLists.txt'']
   \<and> fs (rmtree [''repo'', ''build''] \<lparr>fs = repo_fs, trace = []\<rparr>)
        [''repo'', ''src'', ''CMakeLists.txt''] = Some File
   \<and> trace (snd (config (cmake_exit 0) None [''repo'', ''src''] [''repo'', ''build''] None
        False False True \<lparr>fs = repo_fs, trace = []\<rparr>))
       = [Rmtree [''repo'', ''build''],
          Echo ''> cmake -S /repo/src -B /repo/build'',
          Spawn [''cmake'', ''-S'', ''/repo/src'', ''-B'', ''/repo/build''] Inherit Inherit]"
proof -
  have h1: "\<not> strict_prefix [''repo'', ''build''] [''repo'', ''src'']" by simp
  have h2: "isdir (fs \<lparr>fs = repo_fs, trace = []\<rparr>) [''repo'', ''build'']"
    by (simp add: isdir_def repo_fs_def)
  have c: "config_command None [''repo'', ''src''] [''repo'', ''build''] None False
             = [''cmake'', ''-S'', ''/repo/src'', ''-B'', ''/repo/build'']"
    by (simp add: config_command_eq passthrough_def)
  note t = config_reset_removes_build_dir [OF h1 h2, of "cmake_exit 0" None None False False]
  have gone: "fs (rmtree [''repo'', ''build''] \<lparr>fs = repo_fs, trace = []\<rparr>)
        [''repo'', ''build'', ''CMakeCache.txt''] = None"
    using t [THEN conjunct2, THEN conjunct1] by simp
  have kept: "fs (rmtree [''repo'', ''build''] \<lparr>fs = repo_fs, trace = []\<rparr>)
        [''repo'', ''src'', ''CMakeLists.txt''] = Some File"
    using t [THEN conjunct2, THEN conjunct2, THEN conjunct1] by (simp add: repo_fs_def)
  have tr: "trace (snd (config (cmake_exit 0) None [''repo'', ''src''] [''repo'', ''build''] None
        False False True \<lparr>fs = repo_fs, trace = []\<rparr>))
       = [Rmtree [''repo'', ''build''],
          Echo ''> cmake -S /repo/src -B /repo/build'',
          Spawn [''cmake'', ''-S'', ''/repo/src'', ''-B'', ''/repo/build''] Inherit Inherit]"
    using t [THEN conjunct2, THEN conjunct2, THEN conjunct2, THEN conjunct1] by (simp add: c)
  have "repo_fs [''repo'', ''build'', ''CMakeCache.txt''] = Some File"
    by (simp add: repo_fs_def)
  with h1 h2 gone kept tr show ?thesis by simp
qed



text \<open>
  C7. The configure command is, in this order: \<^verbatim>\<open>cmake -S\<close> source \<^verbatim>\<open>-B\<close> build,
  the build-type token if a mode was given, the export token if requested, and the
  passthrough parameters, which are therefore its last tokens, unchanged and in the order
  given. The older command set has the paths and the passthrough parameters only. These
  are the commands that the two configure operations run.
\<close>

theorem config_command_order:
  "config_command ps s b m e
     = [''cmake'', ''-S'', path_str s, ''-B'', path_str b]
       @ (case m of None \<Rightarrow> [] | Some x \<Rightarrow> [''-DCMAKE_BUILD_TYPE='' @ to_param x])
       @ (if e then [''-DCMAKE_EXPORT_COMPILE_COMMANDS=1''] else [])
       @ passthrough ps
   \<and> drop (length (config_command ps s b m e) - length (passthrough ps))
        (config_command ps s b m e) = passthrough ps
   \<and> main_config_command ps s b
     = [''cmake'', ''-S'', path_str s, ''-B'', path_str b] @ passthrough ps
   \<and> spawns (trace (snd (config ch ps s b m e q False w)))
     = spawns (trace w)
       @ [(config_command ps s b m e, if q then DevNull else Inherit, Inherit)]
   \<and> spawns (trace (snd (main_config ch ps s b w)))
     = spawns (trace w) @ [(main_config_command ps s b, Inherit, Inherit)]"
proof -
  have c: "config_command ps s b m e
     = [''cmake'', ''-S'', path_str s, ''-B'', path_str b]
       @ (case m of None \<Rightarrow> [] | Some x \<Rightarrow> [''-DCMAKE_BUILD_TYPE='' @ to_param x])
       @ (if e then [''-DCMAKE_EXPORT_COMPILE_COMMANDS=1''] else [])
       @ passthrough ps"
    by (rule config_command_eq)
  have d: "drop (length (config_command ps s b m e) - length (passthrough ps))
        (config_command ps s b m e) = passthrough ps"
    by (cases m) (simp_all add: config_command_eq del: to_param.simps)
  have s1: "spawns (trace (snd (config ch ps s b m e q False w)))
     = spawns (trace w)
       @ [(config_command ps s b m e, if q then DevNull else Inherit, Inherit)]"
    by (simp add: config_eq call_eq spawns_append)
  have s2: "spawns (trace (snd (main_config ch ps s b w)))
     = spawns (trace w) @ [(main_config_command ps s b, Inherit, Inherit)]"
    by (simp add: main_config_def main_call_eq spawns_append)
  from c d main_config_command_eq [of ps s b] s1 s2 show ?thesis by blast
qed

text \<open>
  C8, at the invocation \<^verbatim>\<open>config -B /repo -S /repo/src -R\<close>: the unsafe-reset error
  is written to the error stream and nothing else happens, but the function returns, so
  the exit code is 0.
\<close>

theorem unsafe_reset_exit_code:
  "config_cli (cmake_exit 0) None [''repo'', ''src''] [''repo''] None False False True
       \<lparr>fs = repo_fs, trace = []\<rparr>
     = (Returned, \<lparr>fs = repo_fs, trace = [EchoErr unsafe_reset_message]\<rparr>)
   \<and> exit_code (fst (config_cli (cmake_exit 0) None [''repo'', ''src''] [''repo''] None
        False False True \<lparr>fs = repo_fs, trace = []\<rparr>)) = 0"
  by (simp add: config_cli_def config_eq)

text \<open>
  C9. Unless the unsafe-reset check ends it, \<open>config\<close> spawns exactly one child process,
  whose standard output goes to the discard sink when the quiet flag is set and is
  inherited otherwise, and whose standard error is inherited in both cases. \<open>build\<close> has
  no quiet flag: both streams of its child are always inherited.
\<close>

theorem quiet_redirects_stdout_only:
  "spawns (trace (snd (config ch ps s b m e q r w)))
     = spawns (trace w)
       @ (if r \<and> strict_prefix b s then []
          else [(config_command ps s b m e, if q then DevNull else Inherit, Inherit)])
   \<and> spawns (trace (snd (build ch t b w)))
     = spawns (trace w) @ [(build_command t b, Inherit, Inherit)]"
  by (simp add: config_eq call_eq spawns_append build_def rmtree_def)

text \<open>
  C10. When the build path equals the source path, an existing directory, the path is
  not among its own \<open>parents\<close>, so \<open>config\<close> with the reset flag set deletes the source
  root and everything below it, and only then echoes and runs the command.
\<close>

theorem config_reset_same_dir:
  "isdir (fs w) s \<Longrightarrow>
     s \<notin> set (parents s)
     \<and> config ch ps s s m e q True w = call ch (config_command ps s s m e) q (rmtree s w)
     \<and> fs (rmtree s w) s = None
     \<and> (\<forall>p. prefix s p \<longrightarrow> fs (rmtree s w) p = None)
     \<and> trace (snd (config ch ps s s m e q True w))
         = trace w @ [Rmtree s, Echo (''> '' @ join_sp (config_command ps s s m e)),
                      Spawn (config_command ps s s m e) (if q then DevNull else Inherit) Inherit]
     \<and> fs (snd (config ch ps s s m e q True w))
         = snd (ch (config_command ps s s m e) (rmtree_fs s (fs w)))"
proof -
  assume h: "isdir (fs w) s"
  have n: "\<not> strict_prefix s s" by simp
  have p: "s \<notin> set (parents s)" by (simp add: parents_iff)
  have c: "config ch ps s s m e q True w = call ch (config_command ps s s m e) q (rmtree s w)"
    using n h by (rule config_reset_safe_eq)
  have gone: "\<forall>p. prefix s p \<longrightarrow> fs (rmtree s w) p = None"
    by (simp add: rmtree_def rmtree_fs_def)
  then have self: "fs (rmtree s w) s = None" by simp
  have after: "trace (snd (config ch ps s s m e q True w))
         = trace w @ [Rmtree s, Echo (''> '' @ join_sp (config_command ps s s m e)),
                      Spawn (config_command ps s s m e) (if q then DevNull else Inherit) Inherit]"
    "fs (snd (config ch ps s s m e q True w))
         = snd (ch (config_command ps s s m e) (rmtree_fs s (fs w)))"
    by (simp_all only: c call_after_rmtree world.simps)
  from p c self gone after show ?thesis by blast
qed

theorem config_reset_same_dir_witness:
  "isdir (fs \<lparr>fs = repo_fs, trace = []\<rparr>) [''repo'']
   \<and> prefix [''repo''] [''repo'', ''src'', ''CMakeLists.txt'']
   \<and> repo_fs [''repo'', ''src'', ''CMakeLists.txt''] = Some File
   \<and> fs (rmtree [''repo''] \<lparr>fs = repo_fs, trace = []\<rparr>) [''repo'', ''src'', ''CMakeLists.txt'']
       = None
   \<and> fs (rmtree [''repo''] \<lparr>fs = repo_fs, trace = []\<rparr>) [''repo''] = None
   \<and> trace (snd (config (cmake_exit 0) None [''repo''] [''repo''] None False False True
        \<lparr>fs = repo_fs, trace = []\<rparr>))
       = [Rmtree [''repo''],
          Echo ''> cmake -S /repo -B /repo'',
          Spawn [''cmake'', ''-S'', ''/repo'', ''-B'', ''/repo''] Inherit Inherit]"
proof -
  have h: "isdir (fs \<lparr>fs = repo_fs, trace = []\<rparr>) [''repo'']"
    by (simp add: isdir_def repo_fs_def)
  have c: "config_command None [''repo''] [''repo''] None False
             = [''cmake'', ''-S'', ''/repo'', ''-B'', ''/repo'']"
    by (simp add: config_command_eq passthrough_def)
  note t = config_reset_same_dir [OF h, of "cmake_exit 0" None None False False]
  have self: "fs (rmtree [''repo''] \<lparr>fs = repo_fs, trace = []\<rparr>) [''repo''] = None"
    using t [THEN conjunct2, THEN conjunct2, THEN conjunct1] .
  have gone: "fs (rmtree [''repo''] \<lparr>fs = repo_fs, trace = []\<rparr>)
        [''repo'', ''src'', ''CMakeLists.txt''] = None"
    using t [THEN conjunct2, THEN conjunct2, THEN conjunct2, THEN conjunct1] by simp
  have tr: "trace (snd (config (cmake_exit 0) None [''repo''] [''repo''] None False False True
        \<lparr>fs = repo_fs, trace = []\<rparr>))
       = [Rmtree [''repo''],
          Echo ''> cmake -S /repo -B /repo'',
          Spawn [''cmake'', ''-S'', ''/repo'', ''-B'', ''/repo''] Inherit Inherit]"
    using t [THEN conjunct2, THEN conjunct2, THEN conjunct2, THEN conjunct2, THEN conjunct1]
    by (simp add: c)
  have "repo_fs [''repo'', ''src'', ''CMakeLists.txt''] = Some File"
    by (simp add: repo_fs_def)
  with h self gone tr show ?thesis by simp
qed

end
